theory Spec2Isabelle
  imports Complex_Main
begin

section \<open>Data model\<close>

text \<open>
  The marketplace backend keeps its state in relational tables reached through an ORM
  client. Each table is modelled as the list of its rows, each row as a record with the
  columns the route handlers read or write. JavaScript numbers are modelled as exact
  rationals (\<^typ>\<open>rat\<close>); identifiers are strings. The field \<open>user_categories\<close>
  holds the \<open>categoryId\<close> of each category subscription of the user, the relation
  the handlers read as \<open>currentUser.categories\<close>.
\<close>

datatype UserType = PROVIDER | RECEIVER

datatype DemandStatus = ACTIVE | CLOSED | DEMAND_COMPLETED | CANCELLED

datatype OfferStatus = PENDING | ACCEPTED | REJECTED | COMPLETED

record user =
  user_id :: string
  user_name :: "string option"
  user_userType :: UserType
  user_isAdmin :: bool
  user_balance :: rat
  user_rating :: rat
  user_ratingCount :: nat
  user_categories :: "string list"

record category =
  category_id :: string
  category_name :: string
  category_parentId :: "string option"
  category_commissionRate :: "rat option"

record demand =
  demand_id :: string
  demand_userId :: string
  demand_title :: string
  demand_categoryId :: string
  demand_status :: DemandStatus
  demand_isApproved :: bool
  demand_createdAt :: nat

record offer =
  offer_id :: string
  offer_demandId :: string
  offer_providerId :: string
  offer_message :: "string option"
  offer_price :: rat
  offer_estimatedTime :: string
  offer_status :: OfferStatus
  offer_providerCompleted :: bool
  offer_isApproved :: bool

datatype notification_data =
    NewOfferData string string
  | OfferStatusData string string OfferStatus
  | OfferCompletedData string string string

record notification =
  notification_userId :: string
  notification_title :: string
  notification_message :: string
  notification_type :: string
  notification_data :: notification_data

record review =
  review_id :: string
  review_reviewerId :: string
  review_reviewedUserId :: string
  review_rating :: int
  review_comment :: "string option"

record db =
  users :: "user list"
  categories :: "category list"
  demands :: "demand list"
  offers :: "offer list"
  notifications :: "notification list"
  reviews :: "review list"

text \<open>
  Errors thrown inside a handler reach \<open>next(error)\<close>. \<open>AppError message statusCode\<close>
  is the application error of the source; \<open>ClientError\<close> stands for any other exception,
  such as one raised by the database client.
\<close>

datatype error = AppError string nat | ClientError

section \<open>Commission\<close>

text \<open>
  \<open>demand.category?.commissionRate || 0\<close>: a missing category, a null rate and a zero
  rate all give 0.
\<close>

definition commissionRate_of :: "category option \<Rightarrow> rat" where
  "commissionRate_of cat =
     (case cat of
        None \<Rightarrow> 0
      | Some c \<Rightarrow> (case category_commissionRate c of None \<Rightarrow> 0 | Some r \<Rightarrow> r))"

definition commissionAmount :: "rat \<Rightarrow> rat \<Rightarrow> rat" where
  "commissionAmount parsedPrice commissionRate = (parsedPrice / 1000) * commissionRate"

section \<open>Formatting and table helpers\<close>

text \<open>
  \<open>Number.prototype.toFixed(2)\<close> on a number below \<open>10^21\<close> in magnitude: the sign is
  split off, the magnitude is rounded to the nearest multiple of \<open>1/100\<close> (a tie goes to
  the larger one) and printed with exactly two digits after the point.
\<close>

definition digit_char :: "nat \<Rightarrow> char" where
  "digit_char n = ''0123456789'' ! (n mod 10)"

fun show_nat :: "nat \<Rightarrow> string" where
  "show_nat n = (if n < 10 then [digit_char n] else show_nat (n div 10) @ [digit_char n])"

declare show_nat.simps [simp del]

definition toFixed2 :: "rat \<Rightarrow> string" where
  "toFixed2 x =
     (let n = nat \<lfloor>\<bar>x\<bar> * 100 + 1 / 2\<rfloor>;
          s = show_nat (n div 100) @ ''.'' @ [digit_char (n div 10), digit_char n]
      in if x < 0 then ''-'' @ s else s)"

text \<open>\<open>Array.prototype.join\<close> with a separator.\<close>

fun join :: "string \<Rightarrow> string list \<Rightarrow> string" where
  "join sep [] = []"
| "join sep [x] = x"
| "join sep (x # y # ys) = x @ sep @ join sep (y # ys)"

text \<open>\<open>findUnique\<close> by primary key, and the \<open>include\<close> of a demand's category.\<close>

definition find_user :: "db \<Rightarrow> string \<Rightarrow> user option" where
  "find_user d uid = find (\<lambda>u. user_id u = uid) (users d)"

definition find_category :: "db \<Rightarrow> string \<Rightarrow> category option" where
  "find_category d cid = find (\<lambda>c. category_id c = cid) (categories d)"

definition find_demand :: "db \<Rightarrow> string \<Rightarrow> demand option" where
  "find_demand d did = find (\<lambda>x. demand_id x = did) (demands d)"

definition find_offer :: "db \<Rightarrow> string \<Rightarrow> offer option" where
  "find_offer d oid = find (\<lambda>x. offer_id x = oid) (offers d)"

text \<open>
  \<open>update\<close> of the row with a given primary key. The model rewrites every row that
  carries the key; with unique keys that is the one row.
\<close>

definition update_user :: "string \<Rightarrow> (user \<Rightarrow> user) \<Rightarrow> db \<Rightarrow> db" where
  "update_user uid f d = d\<lparr>users := map (\<lambda>u. if user_id u = uid then f u else u) (users d)\<rparr>"

definition update_offer :: "string \<Rightarrow> (offer \<Rightarrow> offer) \<Rightarrow> db \<Rightarrow> db" where
  "update_offer oid f d = d\<lparr>offers := map (\<lambda>x. if offer_id x = oid then f x else x) (offers d)\<rparr>"

definition update_demand :: "string \<Rightarrow> (demand \<Rightarrow> demand) \<Rightarrow> db \<Rightarrow> db" where
  "update_demand did f d =
     d\<lparr>demands := map (\<lambda>x. if demand_id x = did then f x else x) (demands d)\<rparr>"

definition create_notification :: "notification \<Rightarrow> db \<Rightarrow> db" where
  "create_notification n d = d\<lparr>notifications := notifications d @ [n]\<rparr>"

text \<open>A response sent with \<open>res.status(code).json(...)\<close>; \<open>res.json\<close> sends 200.\<close>

record 'a response =
  resp_status :: nat
  resp_data :: 'a

record validation_error =
  ve_param :: string
  ve_msg :: string

section \<open>Offer creation: \<open>POST /api/offers\<close>\<close>

text \<open>
  The request body after JSON parsing. A price is a number or a numeric string; the
  model carries the number it denotes, including the non-finite values \<open>parseFloat\<close>
  can produce. \<open>None\<close> stands for a field that is missing.
\<close>

datatype js_number = Num rat | NaN | PosInfinity | NegInfinity

record create_offer_body =
  body_demandId :: string
  body_message :: "string option"
  body_price :: "js_number option"
  body_estimatedTime :: "string option"

text \<open>\<open>isNaN(num) || !isFinite(num) || num < 0\<close>\<close>

fun bad_price :: "js_number \<Rightarrow> bool" where
  "bad_price (Num p) = (p < 0)"
| "bad_price _ = True"

text \<open>
  The validation chain of the route. \<open>isUUID\<close> is the validator library's UUID test,
  taken as a parameter. Messages with non-ASCII letters are spelled as UTF-8 bytes.
\<close>

definition validate_create_offer :: "(string \<Rightarrow> bool) \<Rightarrow> create_offer_body \<Rightarrow> validation_error list" where
  "validate_create_offer isUUID b =
     (if isUUID (body_demandId b) then []
      else [\<lparr>ve_param = ''demandId'',
             ve_msg = ''Ge'' @ [CHR 0xC3, CHR 0xA7] @ ''ersiz talep ID''\<rparr>]) @
     (case body_message b of
        None \<Rightarrow> []
      | Some m \<Rightarrow>
          if length m \<le> 1000 then []
          else [\<lparr>ve_param = ''message'', ve_msg = ''Mesaj en fazla 1000 karakter olabilir''\<rparr>]) @
     (case body_price b of
        Some p \<Rightarrow>
          if bad_price p
          then [\<lparr>ve_param = ''price'',
                 ve_msg = ''Ge'' @ [CHR 0xC3, CHR 0xA7] @ ''erli bir fiyat giriniz''\<rparr>]
          else []
      | None \<Rightarrow>
          [\<lparr>ve_param = ''price'',
            ve_msg = ''Ge'' @ [CHR 0xC3, CHR 0xA7] @ ''erli bir fiyat giriniz''\<rparr>]) @
     (case body_estimatedTime b of
        Some t \<Rightarrow>
          if t = [] then [\<lparr>ve_param = ''estimatedTime'',
                            ve_msg = ''Tahmini s'' @ [CHR 0xC3, CHR 0xBC] @ ''re zorunludur''\<rparr>]
          else []
      | None \<Rightarrow>
          [\<lparr>ve_param = ''estimatedTime'',
            ve_msg = ''Tahmini s'' @ [CHR 0xC3, CHR 0xBC] @ ''re zorunludur''\<rparr>])"

definition validation_message :: "validation_error list \<Rightarrow> string" where
  "validation_message errors =
     ''Validation error: '' @ join '', '' (map (\<lambda>e. ve_param e @ '': '' @ ve_msg e) errors)"

definition insufficient_balance_message :: "rat \<Rightarrow> rat \<Rightarrow> string" where
  "insufficient_balance_message commission balance =
     ''Yetersiz bakiye. Gerekli: '' @ toFixed2 commission @ '' TL, Mevcut: '' @
     toFixed2 balance @ '' TL''"

text \<open>
  Modelled from the spec: the database schema is not part of the sources; a new offer
  row starts with status pending and \<open>providerCompleted\<close> false.
\<close>

definition new_offer :: "string \<Rightarrow> string \<Rightarrow> string \<Rightarrow> string option \<Rightarrow> rat \<Rightarrow> string \<Rightarrow> offer" where
  "new_offer oid demandId providerId message parsedPrice estimatedTime =
     \<lparr>offer_id = oid, offer_demandId = demandId, offer_providerId = providerId,
      offer_message = (case message of None \<Rightarrow> None | Some m \<Rightarrow> if m = [] then None else Some m),
      offer_price = parsedPrice, offer_estimatedTime = estimatedTime,
      offer_status = PENDING, offer_providerCompleted = False, offer_isApproved = True\<rparr>"

text \<open>
  The transaction of the handler: both writes happen, in this order, or neither.
\<close>

definition create_offer_transaction :: "string \<Rightarrow> rat \<Rightarrow> offer \<Rightarrow> db \<Rightarrow> db" where
  "create_offer_transaction userId commission off d =
     (let d1 = update_user userId (\<lambda>u. u\<lparr>user_balance := user_balance u - commission\<rparr>) d
      in d1\<lparr>offers := offers d1 @ [off]\<rparr>)"

definition new_offer_notification :: "db \<Rightarrow> demand \<Rightarrow> offer \<Rightarrow> notification" where
  "new_offer_notification d dem off =
     \<lparr>notification_userId = demand_userId dem,
      notification_title = ''Yeni Teklif'',
      notification_message =
        (case find_user d (offer_providerId off) of
           None \<Rightarrow> ''Bir sa'' @ [CHR 0xC4, CHR 0x9F] @ ''lay'' @ [CHR 0xC4, CHR 0xB1] @ ''c'' @ [CHR 0xC4, CHR 0xB1]
         | Some u \<Rightarrow>
             (case user_name u of
                None \<Rightarrow> ''Bir sa'' @ [CHR 0xC4, CHR 0x9F] @ ''lay'' @ [CHR 0xC4, CHR 0xB1] @ ''c'' @ [CHR 0xC4, CHR 0xB1]
              | Some n \<Rightarrow>
                  if n = [] then ''Bir sa'' @ [CHR 0xC4, CHR 0x9F] @ ''lay'' @ [CHR 0xC4, CHR 0xB1] @ ''c'' @ [CHR 0xC4, CHR 0xB1]
                  else n)) @ '' talebinize teklif verdi'',
      notification_type = ''NEW_OFFER'',
      notification_data = NewOfferData (offer_id off) (demand_id dem)\<rparr>"

record offer_created =
  created_offer :: offer
  created_commissionAmount :: rat
  created_newBalance :: rat

text \<open>
  The handler. \<open>notificationOk\<close> tells whether the insert of the notification row
  succeeds, \<open>oid\<close> is the key the database gives the new offer, \<open>userId\<close> the
  authenticated user. The result is the response or the error handed to
  \<open>next\<close>, together with the database the handler leaves behind. An insert without
  the required \<open>estimatedTime\<close> is refused by the database client inside the
  transaction, which then writes nothing.
\<close>

definition create_offer ::
  "(string \<Rightarrow> bool) \<Rightarrow> bool \<Rightarrow> string \<Rightarrow> db \<Rightarrow> string \<Rightarrow> create_offer_body
     \<Rightarrow> (error + offer_created response) \<times> db" where
  "create_offer isUUID notificationOk oid d userId b =
     (let errors = validate_create_offer isUUID b in
      if errors \<noteq> [] then (Inl (AppError (validation_message errors) 400), d)
      else
        case body_price b of
          None \<Rightarrow> (Inl (AppError (''Ge'' @ [CHR 0xC3, CHR 0xA7] @ ''erli bir fiyat giriniz'') 400), d)
        | Some NaN \<Rightarrow> (Inl (AppError (''Ge'' @ [CHR 0xC3, CHR 0xA7] @ ''erli bir fiyat giriniz'') 400), d)
        | Some PosInfinity \<Rightarrow> (Inl (AppError (''Ge'' @ [CHR 0xC3, CHR 0xA7] @ ''erli bir fiyat giriniz'') 400), d)
        | Some NegInfinity \<Rightarrow> (Inl (AppError (''Ge'' @ [CHR 0xC3, CHR 0xA7] @ ''erli bir fiyat giriniz'') 400), d)
        | Some (Num parsedPrice) \<Rightarrow>
            if parsedPrice < 0
            then (Inl (AppError (''Ge'' @ [CHR 0xC3, CHR 0xA7] @ ''erli bir fiyat giriniz'') 400), d)
            else
              case find_demand d (body_demandId b) of
                None \<Rightarrow> (Inl (AppError ''Demand not found'' 404), d)
              | Some dem \<Rightarrow>
                  if demand_status dem \<noteq> ACTIVE
                  then (Inl (AppError ''Cannot make offer on inactive demand'' 400), d)
                  else
                    case find (\<lambda>x. offer_demandId x = body_demandId b \<and> offer_providerId x = userId)
                           (offers d) of
                      Some existingOffer \<Rightarrow>
                        (Inl (AppError ''You have already made an offer on this demand'' 400), d)
                    | None \<Rightarrow>
                        case find_user d userId of
                          None \<Rightarrow> (Inl (AppError ''Provider not found'' 404), d)
                        | Some provider \<Rightarrow>
                            let commissionRate = commissionRate_of (find_category d (demand_categoryId dem));
                                commission = commissionAmount parsedPrice commissionRate
                            in
                              if user_balance provider < commission
                              then (Inl (AppError (insufficient_balance_message commission
                                                     (user_balance provider)) 400), d)
                              else
                                case body_estimatedTime b of
                                  None \<Rightarrow> (Inl ClientError, d)
                                | Some estimatedTime \<Rightarrow>
                                    let off = new_offer oid (body_demandId b) userId (body_message b)
                                                parsedPrice estimatedTime;
                                        d1 = create_offer_transaction userId commission off d
                                    in
                                      if \<not> notificationOk then (Inl ClientError, d1)
                                      else
                                        (Inr \<lparr>resp_status = 201,
                                              resp_data =
                                                \<lparr>created_offer = off,
                                                 created_commissionAmount = commission,
                                                 created_newBalance =
                                                   user_balance provider - commission\<rparr>\<rparr>,
                                         create_notification (new_offer_notification d1 dem off) d1))"

section \<open>Visibility resolver and demand listing: \<open>GET /api/demands\<close>\<close>

text \<open>
  \<open>getAllChildCategoryIds\<close> looks up the children of a category (the rows whose
  \<open>parentId\<close> is the category) and calls itself on each child, appending what it
  gets to the list that starts with the category itself. The source has no guard
  against a cyclic parent chain and would then never return; the model counts the
  nesting of calls with a fuel argument and gives \<open>None\<close> when it runs out.
\<close>

text \<open>\<open>for (const x of xs) { ys = await f(x); all = [...all, ...ys] }\<close>\<close>

fun append_each :: "('a \<Rightarrow> 'b list option) \<Rightarrow> 'a list \<Rightarrow> 'b list \<Rightarrow> 'b list option" where
  "append_each f [] allIds = Some allIds"
| "append_each f (x # xs) allIds =
     (case f x of None \<Rightarrow> None | Some ys \<Rightarrow> append_each f xs (allIds @ ys))"

definition children_of :: "category list \<Rightarrow> string \<Rightarrow> string list" where
  "children_of cats categoryId =
     map category_id (filter (\<lambda>c. category_parentId c = Some categoryId) cats)"

fun getAllChildCategoryIds :: "nat \<Rightarrow> category list \<Rightarrow> string \<Rightarrow> string list option" where
  "getAllChildCategoryIds 0 cats categoryId = None"
| "getAllChildCategoryIds (Suc fuel) cats categoryId =
     append_each (getAllChildCategoryIds fuel cats) (children_of cats categoryId) [categoryId]"

text \<open>\<open>[...new Set(xs)]\<close>: the first occurrence of each element, in order.\<close>

fun dedupe :: "'a list \<Rightarrow> 'a list" where
  "dedupe [] = []"
| "dedupe (x # xs) = x # dedupe (filter (\<lambda>y. y \<noteq> x) xs)"

definition allowedCategoryIds :: "nat \<Rightarrow> category list \<Rightarrow> string list \<Rightarrow> string list option" where
  "allowedCategoryIds fuel cats userCategoryIds =
     map_option dedupe (append_each (getAllChildCategoryIds fuel cats) userCategoryIds [])"

datatype category_filter = Equals string | In "string list"

record where_clause =
  where_categoryId :: "category_filter option"
  where_status :: "DemandStatus option"
  where_isApproved :: "bool option"

definition demand_matches :: "where_clause \<Rightarrow> demand \<Rightarrow> bool" where
  "demand_matches w x =
     ((case where_categoryId w of
         None \<Rightarrow> True
       | Some (Equals c) \<Rightarrow> demand_categoryId x = c
       | Some (In cs) \<Rightarrow> demand_categoryId x \<in> set cs) \<and>
      (case where_status w of None \<Rightarrow> True | Some s \<Rightarrow> demand_status x = s) \<and>
      (case where_isApproved w of None \<Rightarrow> True | Some a \<Rightarrow> demand_isApproved x = a))"

record list_query =
  query_category :: "string option"
  query_status :: "string option"
  query_page :: "int option"
  query_limit :: "int option"

definition demandStatus_of :: "string \<Rightarrow> DemandStatus option" where
  "demandStatus_of s =
     (if s = ''ACTIVE'' then Some ACTIVE
      else if s = ''CLOSED'' then Some CLOSED
      else if s = ''COMPLETED'' then Some DEMAND_COMPLETED
      else if s = ''CANCELLED'' then Some CANCELLED
      else None)"

definition validate_list_query :: "list_query \<Rightarrow> validation_error list" where
  "validate_list_query q =
     (case query_status q of
        None \<Rightarrow> []
      | Some s \<Rightarrow>
          if s \<in> set [''ACTIVE'', ''CLOSED'', ''COMPLETED'', ''CANCELLED''] then []
          else [\<lparr>ve_param = ''status'', ve_msg = ''Invalid value''\<rparr>]) @
     (case query_page q of
        None \<Rightarrow> []
      | Some p \<Rightarrow> if 1 \<le> p then [] else [\<lparr>ve_param = ''page'', ve_msg = ''Invalid value''\<rparr>]) @
     (case query_limit q of
        None \<Rightarrow> []
      | Some l \<Rightarrow>
          if 1 \<le> l \<and> l \<le> 100 then []
          else [\<lparr>ve_param = ''limit'', ve_msg = ''Invalid value''\<rparr>])"

text \<open>\<open>findFirst\<close> of a category whose id or name is the query's category.\<close>

definition find_category_by_id_or_name :: "db \<Rightarrow> string \<Rightarrow> category option" where
  "find_category_by_id_or_name d c =
     find (\<lambda>r. category_id r = c \<or> category_name r = c) (categories d)"

text \<open>
  The construction of the \<open>where\<close> object. A query category that is absent or the
  empty string is falsy.
\<close>

definition listing_where :: "nat \<Rightarrow> db \<Rightarrow> string \<Rightarrow> list_query \<Rightarrow> where_clause option" where
  "listing_where fuel d userId q =
     (let currentUser = find_user d userId;
          category = (case query_category q of None \<Rightarrow> None
                      | Some c \<Rightarrow> if c = [] then None else Some c);
          isProvider = (case currentUser of None \<Rightarrow> False | Some u \<Rightarrow> user_userType u = PROVIDER);
          rest = (\<lambda>w. w\<lparr>where_status := (case query_status q of None \<Rightarrow> None
                                           | Some s \<Rightarrow> demandStatus_of s),
                         where_isApproved := (if isProvider then Some True else None)\<rparr>);
          where0 = \<lparr>where_categoryId = None, where_status = None, where_isApproved = None\<rparr>
      in
        case currentUser of
          Some u \<Rightarrow>
            if user_userType u = PROVIDER \<and> length (user_categories u) > 0
            then
              (case allowedCategoryIds fuel (categories d) (user_categories u) of
                 None \<Rightarrow> None
               | Some allowed \<Rightarrow>
                   (case category of
                      Some c \<Rightarrow>
                        (case find_category_by_id_or_name d c of
                           Some categoryRecord \<Rightarrow>
                             if category_id categoryRecord \<in> set allowed
                             then Some (rest (where0\<lparr>where_categoryId :=
                                                       Some (Equals (category_id categoryRecord))\<rparr>))
                             else Some (rest (where0\<lparr>where_categoryId := Some (In [])\<rparr>))
                         | None \<Rightarrow> Some (rest (where0\<lparr>where_categoryId := Some (In [])\<rparr>)))
                    | None \<Rightarrow> Some (rest (where0\<lparr>where_categoryId := Some (In allowed)\<rparr>))))
            else
              (case category of
                 Some c \<Rightarrow>
                   (case find_category_by_id_or_name d c of
                      Some categoryRecord \<Rightarrow>
                        Some (rest (where0\<lparr>where_categoryId :=
                                              Some (Equals (category_id categoryRecord))\<rparr>))
                    | None \<Rightarrow> Some (rest where0))
               | None \<Rightarrow> Some (rest where0))
        | None \<Rightarrow>
            (case category of
               Some c \<Rightarrow>
                 (case find_category_by_id_or_name d c of
                    Some categoryRecord \<Rightarrow>
                      Some (rest (where0\<lparr>where_categoryId :=
                                            Some (Equals (category_id categoryRecord))\<rparr>))
                  | None \<Rightarrow> Some (rest where0))
             | None \<Rightarrow> Some (rest where0)))"

record demand_page =
  page_demands :: "demand list"
  page_page :: nat
  page_limit :: nat
  page_total :: nat
  page_totalPages :: nat

text \<open>
  The handler: validation, the \<open>where\<close> object, then the rows that match it, ordered
  by \<open>createdAt\<close> descending, cut to the requested page, with the count of all matching
  rows. The result is \<open>None\<close> when the resolver does not return.
\<close>

definition list_demands :: "nat \<Rightarrow> db \<Rightarrow> string \<Rightarrow> list_query \<Rightarrow> (error + demand_page response) option" where
  "list_demands fuel d userId q =
     (case validate_list_query q of
        e # es \<Rightarrow> Some (Inl (AppError (ve_msg e) 400))
      | [] \<Rightarrow>
          (case listing_where fuel d userId q of
             None \<Rightarrow> None
           | Some w \<Rightarrow>
               let pageNum = (case query_page q of None \<Rightarrow> 1 | Some p \<Rightarrow> nat p);
                   limitNum = (case query_limit q of None \<Rightarrow> 10 | Some l \<Rightarrow> nat l);
                   skip = (pageNum - 1) * limitNum;
                   matching = rev (sort_key demand_createdAt (filter (demand_matches w) (demands d)));
                   total = length matching
               in Some (Inr \<lparr>resp_status = 200,
                             resp_data =
                               \<lparr>page_demands = take limitNum (drop skip matching),
                                page_page = pageNum, page_limit = limitNum, page_total = total,
                                page_totalPages = (total + limitNum - 1) div limitNum\<rparr>\<rparr>)))"

section \<open>Single demand: \<open>GET /api/demands/:id\<close>\<close>

definition get_demand :: "db \<Rightarrow> string \<Rightarrow> string \<Rightarrow> error + demand response" where
  "get_demand d userId did =
     (case find_demand d did of
        None \<Rightarrow> Inl (AppError ''Demand not found'' 404)
      | Some dem \<Rightarrow>
          if \<not> demand_isApproved dem
          then Inl (AppError (''Bu talep hen'' @ [CHR 0xC3, CHR 0xBC] @ ''z onaylanmam'' @
                              [CHR 0xC4, CHR 0xB1, CHR 0xC5, CHR 0x9F]) 403)
          else
            (case find_user d userId of
               Some currentUser \<Rightarrow>
                 if length (user_categories currentUser) > 0 \<and>
                    demand_categoryId dem \<notin> set (user_categories currentUser)
                 then Inl (AppError (''Bu talebi g'' @ [CHR 0xC3, CHR 0xB6] @ ''rme yetkiniz yok'') 403)
                 else Inr \<lparr>resp_status = 200, resp_data = dem\<rparr>
             | None \<Rightarrow> Inr \<lparr>resp_status = 200, resp_data = dem\<rparr>))"

section \<open>Writers of the offer status\<close>

definition offerStatus_of :: "string \<Rightarrow> OfferStatus option" where
  "offerStatus_of s =
     (if s = ''PENDING'' then Some PENDING
      else if s = ''ACCEPTED'' then Some ACCEPTED
      else if s = ''REJECTED'' then Some REJECTED
      else if s = ''COMPLETED'' then Some COMPLETED
      else None)"

subsection \<open>Accept or reject: \<open>PATCH /api/offers/:id/status\<close>\<close>

definition offer_status_notification :: "offer \<Rightarrow> OfferStatus \<Rightarrow> notification" where
  "offer_status_notification off status =
     \<lparr>notification_userId = offer_providerId off,
      notification_title = (if status = ACCEPTED then ''Teklif Kabul Edildi'' else ''Teklif Reddedildi''),
      notification_message =
        ''Teklifiniz '' @ (if status = ACCEPTED then ''kabul edildi'' else ''reddedildi''),
      notification_type = ''OFFER_STATUS'',
      notification_data = OfferStatusData (offer_id off) (offer_demandId off) status\<rparr>"

text \<open>
  The three writes (offer, notification, demand) are separate statements. When the
  notification insert fails the offer is already updated and the demand is not.
\<close>

definition set_offer_status ::
  "bool \<Rightarrow> db \<Rightarrow> string \<Rightarrow> string \<Rightarrow> string \<Rightarrow> (error + offer response) \<times> db" where
  "set_offer_status notificationOk d userId oid bodyStatus =
     (if bodyStatus \<notin> set [''ACCEPTED'', ''REJECTED'']
      then (Inl (AppError ''Invalid value'' 400), d)
      else
        case offerStatus_of bodyStatus of
          None \<Rightarrow> (Inl ClientError, d)
        | Some status \<Rightarrow>
            (case find_offer d oid of
               None \<Rightarrow> (Inl (AppError ''Offer not found'' 404), d)
             | Some off \<Rightarrow>
                 if map_option demand_userId (find_demand d (offer_demandId off)) \<noteq> Some userId
                 then (Inl (AppError ''You are not authorized to update this offer'' 403), d)
                 else
                   let d1 = update_offer oid (\<lambda>x. x\<lparr>offer_status := status\<rparr>) d;
                       updatedOffer = off\<lparr>offer_status := status\<rparr>
                   in
                     if \<not> notificationOk then (Inl ClientError, d1)
                     else
                       let d2 = create_notification (offer_status_notification off status) d1;
                           d3 = (if status = ACCEPTED
                                 then update_demand (offer_demandId off)
                                        (\<lambda>x. x\<lparr>demand_status := CLOSED\<rparr>) d2
                                 else d2)
                       in (Inr \<lparr>resp_status = 200, resp_data = updatedOffer\<rparr>, d3)))"

subsection \<open>Update from the admin panel: \<open>PATCH /api/offers/:id\<close>\<close>

record update_offer_body =
  update_message :: "string option"
  update_price :: "rat option"
  update_estimatedTime :: "string option"
  update_status :: "string option"

definition validate_update_offer :: "update_offer_body \<Rightarrow> validation_error list" where
  "validate_update_offer b =
     (case update_message b of
        None \<Rightarrow> []
      | Some m \<Rightarrow> if length m \<le> 1000 then [] else [\<lparr>ve_param = ''message'', ve_msg = ''Invalid value''\<rparr>]) @
     (case update_price b of
        None \<Rightarrow> []
      | Some p \<Rightarrow> if 0 \<le> p then [] else [\<lparr>ve_param = ''price'', ve_msg = ''Invalid value''\<rparr>]) @
     (case update_status b of
        None \<Rightarrow> []
      | Some s \<Rightarrow>
          if s \<in> set [''PENDING'', ''ACCEPTED'', ''REJECTED'', ''COMPLETED''] then []
          else [\<lparr>ve_param = ''status'', ve_msg = ''Invalid value''\<rparr>])"

definition apply_update_data :: "update_offer_body \<Rightarrow> offer \<Rightarrow> offer" where
  "apply_update_data b x =
     (let x1 = (case update_message b of None \<Rightarrow> x | Some m \<Rightarrow> x\<lparr>offer_message := Some m\<rparr>);
          x2 = (case update_price b of None \<Rightarrow> x1 | Some p \<Rightarrow> x1\<lparr>offer_price := p\<rparr>);
          x3 = (case update_estimatedTime b of None \<Rightarrow> x2 | Some t \<Rightarrow> x2\<lparr>offer_estimatedTime := t\<rparr>)
      in case update_status b of
           None \<Rightarrow> x3
         | Some s \<Rightarrow> (case offerStatus_of s of None \<Rightarrow> x3 | Some st \<Rightarrow> x3\<lparr>offer_status := st\<rparr>))"

definition admin_update_offer ::
  "db \<Rightarrow> string \<Rightarrow> update_offer_body \<Rightarrow> (error + offer response) \<times> db" where
  "admin_update_offer d oid b =
     (case validate_update_offer b of
        e # es \<Rightarrow> (Inl (AppError (ve_msg e) 400), d)
      | [] \<Rightarrow>
          (case find_offer d oid of
             None \<Rightarrow> (Inl (AppError ''Offer not found'' 404), d)
           | Some off \<Rightarrow>
               (Inr \<lparr>resp_status = 200, resp_data = apply_update_data b off\<rparr>,
                update_offer oid (apply_update_data b) d)))"

subsection \<open>Completion by the provider: \<open>PATCH /api/offers/:id/complete\<close>\<close>

definition offer_completed_notification :: "db \<Rightarrow> demand \<Rightarrow> offer \<Rightarrow> notification" where
  "offer_completed_notification d dem off =
     \<lparr>notification_userId = demand_userId dem,
      notification_title = ''Hizmet Tamamland'' @ [CHR 0xC4, CHR 0xB1],
      notification_message =
        (case find_user d (offer_providerId off) of
           None \<Rightarrow> ''Hizmet sa'' @ [CHR 0xC4, CHR 0x9F] @ ''lay'' @ [CHR 0xC4, CHR 0xB1] @ ''c'' @ [CHR 0xC4, CHR 0xB1]
         | Some u \<Rightarrow>
             (case user_name u of
                None \<Rightarrow> ''Hizmet sa'' @ [CHR 0xC4, CHR 0x9F] @ ''lay'' @ [CHR 0xC4, CHR 0xB1] @ ''c'' @ [CHR 0xC4, CHR 0xB1]
              | Some n \<Rightarrow>
                  if n = [] then ''Hizmet sa'' @ [CHR 0xC4, CHR 0x9F] @ ''lay'' @ [CHR 0xC4, CHR 0xB1] @ ''c'' @ [CHR 0xC4, CHR 0xB1]
                  else n)) @
        '' i'' @ [CHR 0xC5, CHR 0x9F] @ ''i tamamlad'' @ [CHR 0xC4, CHR 0xB1, CHR 0xC4, CHR 0x9F, CHR 0xC4, CHR 0xB1] @
        ''n'' @ [CHR 0xC4, CHR 0xB1] @ '' onaylad'' @ [CHR 0xC4, CHR 0xB1] @ ''. L'' @ [CHR 0xC3, CHR 0xBC] @
        ''tfen hizmeti de'' @ [CHR 0xC4, CHR 0x9F] @ ''erlendirin.'',
      notification_type = ''OFFER_COMPLETED'',
      notification_data = OfferCompletedData (offer_id off) (offer_demandId off) (offer_providerId off)\<rparr>"

definition complete_offer :: "bool \<Rightarrow> db \<Rightarrow> string \<Rightarrow> string \<Rightarrow> (error + offer response) \<times> db" where
  "complete_offer notificationOk d userId oid =
     (case find_offer d oid of
        None \<Rightarrow> (Inl (AppError ''Offer not found'' 404), d)
      | Some off \<Rightarrow>
          if offer_providerId off \<noteq> userId
          then (Inl (AppError ''Only provider can mark offer as completed'' 403), d)
          else if offer_status off \<noteq> ACCEPTED
          then (Inl (AppError ''Only accepted offers can be marked as completed'' 400), d)
          else if offer_providerCompleted off
          then (Inl (AppError ''Offer already marked as completed by provider'' 400), d)
          else
            let d1 = update_offer oid
                       (\<lambda>x. x\<lparr>offer_providerCompleted := True, offer_status := COMPLETED\<rparr>) d;
                updatedOffer = off\<lparr>offer_providerCompleted := True, offer_status := COMPLETED\<rparr>
            in
              case find_demand d (offer_demandId off) of
                None \<Rightarrow> (Inl ClientError, d1)
              | Some dem \<Rightarrow>
                  if \<not> notificationOk then (Inl ClientError, d1)
                  else (Inr \<lparr>resp_status = 200, resp_data = updatedOffer\<rparr>,
                        create_notification (offer_completed_notification d dem off) d1))"

section \<open>Reviews and the aggregate rating\<close>



text \<open>\<open>findMany\<close> of the reviews a user received.\<close>

definition reviews_of :: "db \<Rightarrow> string \<Rightarrow> review list" where
  "reviews_of d uid = filter (\<lambda>r. review_reviewedUserId r = uid) (reviews d)"




section \<open>A sample database\<close>

text \<open>
  Category \<open>A\<close> has the children \<open>B\<close> and \<open>C\<close>, \<open>B\<close> has the child \<open>D\<close>, and \<open>E\<close>
  is unrelated. Provider \<open>p1\<close> subscribes to \<open>A\<close>, provider \<open>p2\<close> to nothing, and
  \<open>r1\<close> is a receiver who owns all demands; \<open>a1\<close> is an admin account.
\<close>

definition example_categories :: "category list" where
  "example_categories =
     [\<lparr>category_id = ''A'', category_name = ''Cleaning'', category_parentId = None,
       category_commissionRate = Some 10\<rparr>,
      \<lparr>category_id = ''B'', category_name = ''Home cleaning'', category_parentId = Some ''A'',
       category_commissionRate = None\<rparr>,
      \<lparr>category_id = ''C'', category_name = ''Office cleaning'', category_parentId = Some ''A'',
       category_commissionRate = Some 5\<rparr>,
      \<lparr>category_id = ''D'', category_name = ''Window cleaning'', category_parentId = Some ''B'',
       category_commissionRate = Some 20\<rparr>,
      \<lparr>category_id = ''E'', category_name = ''Catering'', category_parentId = None,
       category_commissionRate = None\<rparr>]"

definition example_users :: "user list" where
  "example_users =
     [\<lparr>user_id = ''p1'', user_name = Some ''Ali'', user_userType = PROVIDER,
       user_isAdmin = False, user_balance = 100,
       user_rating = 4, user_ratingCount = 2, user_categories = [''A'']\<rparr>,
      \<lparr>user_id = ''p2'', user_name = None, user_userType = PROVIDER,
       user_isAdmin = False, user_balance = 50,
       user_rating = 2, user_ratingCount = 1, user_categories = []\<rparr>,
      \<lparr>user_id = ''r1'', user_name = Some ''Veli'', user_userType = RECEIVER,
       user_isAdmin = False, user_balance = 0,
       user_rating = 0, user_ratingCount = 0, user_categories = []\<rparr>,
      \<lparr>user_id = ''a1'', user_name = Some ''Admin'', user_userType = RECEIVER,
       user_isAdmin = True, user_balance = 0,
       user_rating = 0, user_ratingCount = 0, user_categories = []\<rparr>]"

definition example_demands :: "demand list" where
  "example_demands =
     [\<lparr>demand_id = ''d1'', demand_userId = ''r1'', demand_title = ''Windows'',
       demand_categoryId = ''D'', demand_status = ACTIVE, demand_isApproved = True,
       demand_createdAt = 1\<rparr>,
      \<lparr>demand_id = ''d2'', demand_userId = ''r1'', demand_title = ''Dinner'',
       demand_categoryId = ''E'', demand_status = ACTIVE, demand_isApproved = True,
       demand_createdAt = 2\<rparr>,
      \<lparr>demand_id = ''d3'', demand_userId = ''r1'', demand_title = ''Flat'',
       demand_categoryId = ''A'', demand_status = ACTIVE, demand_isApproved = False,
       demand_createdAt = 3\<rparr>,
      \<lparr>demand_id = ''d4'', demand_userId = ''r1'', demand_title = ''House'',
       demand_categoryId = ''A'', demand_status = ACTIVE, demand_isApproved = True,
       demand_createdAt = 4\<rparr>,
      \<lparr>demand_id = ''d5'', demand_userId = ''r1'', demand_title = ''Office'',
       demand_categoryId = ''C'', demand_status = CLOSED, demand_isApproved = True,
       demand_createdAt = 5\<rparr>]"

definition example_offers :: "offer list" where
  "example_offers =
     [\<lparr>offer_id = ''o1'', offer_demandId = ''d1'', offer_providerId = ''p2'', offer_message = None,
       offer_price = 1000, offer_estimatedTime = ''2 days'', offer_status = PENDING,
       offer_providerCompleted = False, offer_isApproved = True\<rparr>,
      \<lparr>offer_id = ''o2'', offer_demandId = ''d1'', offer_providerId = ''p1'', offer_message = None,
       offer_price = 1200, offer_estimatedTime = ''1 day'', offer_status = PENDING,
       offer_providerCompleted = False, offer_isApproved = True\<rparr>,
      \<lparr>offer_id = ''o3'', offer_demandId = ''d5'', offer_providerId = ''p1'', offer_message = None,
       offer_price = 900, offer_estimatedTime = ''3 days'', offer_status = REJECTED,
       offer_providerCompleted = False, offer_isApproved = True\<rparr>,
      \<lparr>offer_id = ''o4'', offer_demandId = ''d5'', offer_providerId = ''p2'', offer_message = None,
       offer_price = 800, offer_estimatedTime = ''3 days'', offer_status = ACCEPTED,
       offer_providerCompleted = False, offer_isApproved = True\<rparr>]"

definition example_reviews :: "review list" where
  "example_reviews =
     [\<lparr>review_id = ''v1'', review_reviewerId = ''r1'', review_reviewedUserId = ''p1'',
       review_rating = 5, review_comment = None\<rparr>,
      \<lparr>review_id = ''v2'', review_reviewerId = ''r2'', review_reviewedUserId = ''p1'',
       review_rating = 3, review_comment = None\<rparr>,
      \<lparr>review_id = ''v0'', review_reviewerId = ''r1'', review_reviewedUserId = ''p2'',
       review_rating = 2, review_comment = None\<rparr>]"

definition example_db :: db where
  "example_db =
     \<lparr>users = example_users, categories = example_categories, demands = example_demands,
      offers = example_offers, notifications = [], reviews = example_reviews\<rparr>"


definition example_offer_body :: create_offer_body where
  "example_offer_body =
     \<lparr>body_demandId = ''d4'', body_message = None, body_price = Some (Num 7500),
      body_estimatedTime = Some ''2 days''\<rparr>"

section \<open>Notions of the specification\<close>




text \<open>The edges of the offer state machine as the specification draws it.\<close>

fun spec_transition :: "OfferStatus \<Rightarrow> OfferStatus \<Rightarrow> bool" where
  "spec_transition PENDING ACCEPTED = True"
| "spec_transition PENDING REJECTED = True"
| "spec_transition ACCEPTED COMPLETED = True"
| "spec_transition _ _ = False"

text \<open>The name of a status as it appears in a request body.\<close>

fun offerStatus_name :: "OfferStatus \<Rightarrow> string" where
  "offerStatus_name PENDING = ''PENDING''"
| "offerStatus_name ACCEPTED = ''ACCEPTED''"
| "offerStatus_name REJECTED = ''REJECTED''"
| "offerStatus_name COMPLETED = ''COMPLETED''"

definition status_only :: "OfferStatus \<Rightarrow> update_offer_body" where
  "status_only st =
     \<lparr>update_message = None, update_price = None, update_estimatedTime = None,
      update_status = Some (offerStatus_name st)\<rparr>"

text \<open>A UUID test that accepts every string, for the sample requests.\<close>

definition example_isUUID :: "string \<Rightarrow> bool" where
  "example_isUUID s = True"

definition example_query :: list_query where
  "example_query =
     \<lparr>query_category = None, query_status = None, query_page = None, query_limit = None\<rparr>"

section \<open>Auxiliary facts about the tables\<close>

lemma find_map_update:
  assumes "\<And>x. key (f x) = key x"
  shows "find (\<lambda>x. key x = k) (map (\<lambda>x. if key x = k then f x else x) xs)
         = map_option f (find (\<lambda>x. key x = k) xs)"
  using assms by (induction xs) auto





section \<open>Single demand fetch\<close>

text \<open>
  C10. A demand that is not approved is refused with status 403 by the single-demand
  fetch, whoever the authenticated requester is: the approval test comes right after
  the lookup, before the requester is even read, so the owner of the demand and an
  admin account get the same refusal.
\<close>

theorem unapproved_demand_forbidden:
  assumes "find_demand d did = Some dem" and "\<not> demand_isApproved dem"
  shows "get_demand d userId did =
           Inl (AppError (''Bu talep hen'' @ [CHR 0xC3, CHR 0xBC] @ ''z onaylanmam'' @
                          [CHR 0xC4, CHR 0xB1, CHR 0xC5, CHR 0x9F]) 403)"
  using assms by (simp add: get_demand_def)

lemma example_find_d3: "find_demand example_db ''d3'' = Some (example_demands ! 2)"
  by (simp add: find_demand_def example_db_def example_demands_def)

theorem unapproved_demand_forbidden_witness:
  "demand_userId (example_demands ! 2) = ''r1'' \<and> \<not> demand_isApproved (example_demands ! 2) \<and>
   map_option user_isAdmin (find_user example_db ''a1'') = Some True \<and>
   (\<exists>msg. get_demand example_db ''r1'' ''d3'' = Inl (AppError msg 403)) \<and>
   (\<exists>msg. get_demand example_db ''a1'' ''d3'' = Inl (AppError msg 403)) \<and>
   (\<exists>msg. get_demand example_db ''p1'' ''d3'' = Inl (AppError msg 403))"
proof -
  have a: "\<not> demand_isApproved (example_demands ! 2)" by (simp add: example_demands_def)
  show ?thesis
    using unapproved_demand_forbidden [OF example_find_d3 a] a
    by (simp add: example_demands_def find_user_def example_db_def example_users_def)
qed

section \<open>Offer creation\<close>


lemma find_user_create_notification [simp]:
  "find_user (create_notification n d) uid = find_user d uid"
  by (simp add: find_user_def create_notification_def)










subsection \<open>Failure of the notification insert\<close>

text \<open>
  The claim C8 says that a failing notification insert after the committed transaction
  still yields the 201 response. On the sample database, with the insert failing, the
  offer row and the debit are in the database and the handler ends in \<open>next(error)\<close>.
\<close>

theorem notification_failure_not_swallowed:
  "fst (create_offer example_isUUID False ''o9'' example_db ''p1'' example_offer_body) = Inl ClientError \<and>
   offers (snd (create_offer example_isUUID False ''o9'' example_db ''p1'' example_offer_body)) =
     example_offers @ [new_offer ''o9'' ''d4'' ''p1'' None 7500 ''2 days''] \<and>
   map user_balance (users (snd (create_offer example_isUUID False ''o9'' example_db ''p1'' example_offer_body)))
     = [25, 50, 0, 0]"
  by (simp add: create_offer_def validate_create_offer_def example_isUUID_def example_offer_body_def
      find_demand_def find_user_def find_category_def example_db_def example_demands_def
      example_offers_def example_users_def example_categories_def commissionRate_of_def
      commissionAmount_def create_offer_transaction_def update_user_def new_offer_def)

text \<open>
  C8, as the code has it. If the handler answers 201 when the notification insert
  succeeds, then with a failing insert it leaves the same users and offers (the
  committed debit and offer row are kept, and only the notification row is missing),
  and it hands an error to the error handler instead of sending the 201 response.
\<close>

theorem notification_failure_keeps_commit:
  assumes "fst (create_offer isUUID True oid d userId b) = Inr r"
  shows "fst (create_offer isUUID False oid d userId b) = Inl ClientError \<and>
         snd (create_offer isUUID False oid d userId b) =
           (snd (create_offer isUUID True oid d userId b))\<lparr>notifications := notifications d\<rparr> \<and>
         users (snd (create_offer isUUID False oid d userId b)) =
           users (snd (create_offer isUUID True oid d userId b)) \<and>
         offers (snd (create_offer isUUID False oid d userId b)) =
           offers (snd (create_offer isUUID True oid d userId b)) \<and>
         offers (snd (create_offer isUUID False oid d userId b)) \<noteq> offers d"
  using assms
  by (auto simp: create_offer_def Let_def create_notification_def create_offer_transaction_def
      update_user_def split: if_splits option.splits js_number.splits)

theorem notification_failure_keeps_commit_witness:
  "fst (create_offer example_isUUID True ''o9'' example_db ''p1'' example_offer_body) =
     Inr \<lparr>resp_status = 201,
          resp_data = \<lparr>created_offer = new_offer ''o9'' ''d4'' ''p1'' None 7500 ''2 days'',
                       created_commissionAmount = 75, created_newBalance = 25\<rparr>\<rparr> \<and>
   fst (create_offer example_isUUID False ''o9'' example_db ''p1'' example_offer_body) = Inl ClientError \<and>
   offers (snd (create_offer example_isUUID False ''o9'' example_db ''p1'' example_offer_body)) =
     offers (snd (create_offer example_isUUID True ''o9'' example_db ''p1'' example_offer_body)) \<and>
   users (snd (create_offer example_isUUID False ''o9'' example_db ''p1'' example_offer_body)) =
     users (snd (create_offer example_isUUID True ''o9'' example_db ''p1'' example_offer_body))"
proof -
  have h: "fst (create_offer example_isUUID True ''o9'' example_db ''p1'' example_offer_body) =
     Inr \<lparr>resp_status = 201,
          resp_data = \<lparr>created_offer = new_offer ''o9'' ''d4'' ''p1'' None 7500 ''2 days'',
                       created_commissionAmount = 75, created_newBalance = 25\<rparr>\<rparr>"
    by (simp add: create_offer_def validate_create_offer_def example_isUUID_def example_offer_body_def
      find_demand_def find_user_def find_category_def example_db_def example_demands_def
      example_offers_def example_users_def example_categories_def commissionRate_of_def
      commissionAmount_def Let_def)
  from notification_failure_keeps_commit [OF h] h show ?thesis by simp
qed

section \<open>Writers of the offer status\<close>

lemma offers_update_demand [simp]: "offers (update_demand did f d) = offers d"
  by (simp add: update_demand_def)

lemma offers_create_notification [simp]: "offers (create_notification n d) = offers d"
  by (simp add: create_notification_def)

lemma find_demand_create_notification [simp]:
  "find_demand (create_notification n d) did = find_demand d did"
  by (simp add: find_demand_def create_notification_def)

lemma find_demand_update_offer [simp]:
  "find_demand (update_offer oid f d) did = find_demand d did"
  by (simp add: find_demand_def update_offer_def)

lemma offers_update_offer:
  "offers (update_offer oid f d) = map (\<lambda>x. if offer_id x = oid then f x else x) (offers d)"
  by (simp add: update_offer_def)



lemma zip_map_same: "(x, y) \<in> set (zip xs (map g xs)) \<Longrightarrow> y = g x"
  by (induction xs) auto

lemma find_distinct_key:
  assumes "distinct (map key xs)" and "find (\<lambda>x. key x = k) xs = Some a"
    and "x \<in> set xs" and "key x = k"
  shows "x = a"
  using assms
proof (induction xs)
  case Nil
  then show ?case by simp
next
  case (Cons z zs)
  show ?case
  proof (cases "key z = k")
    case True
    with Cons.prems have "a = z" by simp
    moreover from True Cons.prems have "x = z" by (auto simp: image_iff) 
    ultimately show ?thesis by simp
  next
    case False
    with Cons show ?thesis by auto
  qed
qed

lemma complete_offer_offers:
  "offers (snd (complete_offer ok d userId oid)) = offers d \<or>
   (\<exists>off. find_offer d oid = Some off \<and> offer_status off = ACCEPTED \<and>
      offers (snd (complete_offer ok d userId oid)) =
        map (\<lambda>x. if offer_id x = oid
                 then x\<lparr>offer_providerCompleted := True, offer_status := COMPLETED\<rparr> else x) (offers d))"
  by (auto simp: complete_offer_def Let_def offers_update_offer split: option.splits)

lemma set_offer_status_offers:
  "offers (snd (set_offer_status ok d userId oid bodyStatus)) = offers d \<or>
   (\<exists>st. (st = ACCEPTED \<or> st = REJECTED) \<and>
      offers (snd (set_offer_status ok d userId oid bodyStatus)) =
        map (\<lambda>x. if offer_id x = oid then x\<lparr>offer_status := st\<rparr> else x) (offers d))"
  by (auto simp: set_offer_status_def Let_def offers_update_offer offerStatus_of_def
      split: option.splits)

lemma zip_same: "(x, y) \<in> set (zip xs xs) \<Longrightarrow> y = x"
  by (induction xs) auto

lemma offerStatus_of_name [simp]: "offerStatus_of (offerStatus_name st) = Some st"
  by (cases st) (simp_all add: offerStatus_of_def)

lemma validate_status_only [simp]: "validate_update_offer (status_only st) = []"
  by (cases st) (simp_all add: validate_update_offer_def status_only_def)

lemma find_offer_update_offer:
  assumes "\<And>x. offer_id (f x) = offer_id x"
  shows "find_offer (update_offer oid f d) oid = map_option f (find_offer d oid)"
  unfolding find_offer_def update_offer_def
  using find_map_update [of offer_id f oid "offers d"] assms by simp

lemma offer_id_apply_update_data [simp]: "offer_id (apply_update_data b x) = offer_id x"
  by (simp add: apply_update_data_def Let_def split: option.splits)

text \<open>
  C5, as the code has it. With unique offer keys, the completion endpoint changes a
  status only from ACCEPTED to COMPLETED, the accept/reject endpoint writes no status
  other than ACCEPTED and REJECTED, and the admin update sets the status of an existing
  offer to any of the four values, whatever the status was; so after a rejection or a
  completion the status can still change. Each row of the offers table is paired with
  the row at the same position after the call; no call adds or removes a row.
\<close>

theorem offer_status_writers:
  assumes "distinct (map offer_id (offers d))"
  shows
    "length (offers (snd (complete_offer ok d userId oid))) = length (offers d) \<and>
     (\<forall>x y. (x, y) \<in> set (zip (offers d) (offers (snd (complete_offer ok d userId oid)))) \<longrightarrow>
        offer_status y = offer_status x \<or> (offer_status x = ACCEPTED \<and> offer_status y = COMPLETED)) \<and>
     length (offers (snd (set_offer_status ok d userId oid bodyStatus))) = length (offers d) \<and>
     (\<forall>x y. (x, y) \<in> set (zip (offers d) (offers (snd (set_offer_status ok d userId oid bodyStatus)))) \<longrightarrow>
        offer_status y = offer_status x \<or> offer_status y = ACCEPTED \<or> offer_status y = REJECTED) \<and>
     (\<forall>off st. find_offer d oid = Some off \<longrightarrow>
        fst (admin_update_offer d oid (status_only st)) =
          Inr \<lparr>resp_status = 200, resp_data = off\<lparr>offer_status := st\<rparr>\<rparr> \<and>
        find_offer (snd (admin_update_offer d oid (status_only st))) oid =
          Some (off\<lparr>offer_status := st\<rparr>))"
proof -
  have a1: "length (offers (snd (complete_offer ok d userId oid))) = length (offers d)"
    using complete_offer_offers [of ok d userId oid] by auto
  have a2: "offer_status y = offer_status x \<or> (offer_status x = ACCEPTED \<and> offer_status y = COMPLETED)"
    if xy: "(x, y) \<in> set (zip (offers d) (offers (snd (complete_offer ok d userId oid))))" for x y
  proof -
    from complete_offer_offers [of ok d userId oid] show ?thesis
    proof
      assume "offers (snd (complete_offer ok d userId oid)) = offers d"
      with xy show ?thesis by (auto dest: zip_same)
    next
      assume "\<exists>off. find_offer d oid = Some off \<and> offer_status off = ACCEPTED \<and>
        offers (snd (complete_offer ok d userId oid)) =
          map (\<lambda>x. if offer_id x = oid
                   then x\<lparr>offer_providerCompleted := True, offer_status := COMPLETED\<rparr> else x) (offers d)"
      then obtain off where off: "find_offer d oid = Some off" "offer_status off = ACCEPTED"
        and m: "offers (snd (complete_offer ok d userId oid)) =
          map (\<lambda>x. if offer_id x = oid
                   then x\<lparr>offer_providerCompleted := True, offer_status := COMPLETED\<rparr> else x) (offers d)"
        by blast
      from xy have y: "y = (if offer_id x = oid
                   then x\<lparr>offer_providerCompleted := True, offer_status := COMPLETED\<rparr> else x)"
        unfolding m by (rule zip_map_same)
      from xy have xin: "x \<in> set (offers d)" by (rule set_zip_leftD)
      show ?thesis
      proof (cases "offer_id x = oid")
        case True
        with find_distinct_key [OF assms off(1) [unfolded find_offer_def] xin] have "x = off" by simp
        with off y True show ?thesis by simp
      next
        case False
        with y show ?thesis by simp
      qed
    qed
  qed
  have b1: "length (offers (snd (set_offer_status ok d userId oid bodyStatus))) = length (offers d)"
    using set_offer_status_offers [of ok d userId oid bodyStatus] by auto
  have b2: "offer_status y = offer_status x \<or> offer_status y = ACCEPTED \<or> offer_status y = REJECTED"
    if xy: "(x, y) \<in> set (zip (offers d) (offers (snd (set_offer_status ok d userId oid bodyStatus))))" for x y
  proof -
    from set_offer_status_offers [of ok d userId oid bodyStatus] show ?thesis
    proof
      assume "offers (snd (set_offer_status ok d userId oid bodyStatus)) = offers d"
      with xy show ?thesis by (auto dest: zip_same)
    next
      assume "\<exists>st. (st = ACCEPTED \<or> st = REJECTED) \<and>
        offers (snd (set_offer_status ok d userId oid bodyStatus)) =
          map (\<lambda>x. if offer_id x = oid then x\<lparr>offer_status := st\<rparr> else x) (offers d)"
      then obtain st where st: "st = ACCEPTED \<or> st = REJECTED"
        and m: "offers (snd (set_offer_status ok d userId oid bodyStatus)) =
          map (\<lambda>x. if offer_id x = oid then x\<lparr>offer_status := st\<rparr> else x) (offers d)"
        by blast
      from xy have "y = (if offer_id x = oid then x\<lparr>offer_status := st\<rparr> else x)"
        unfolding m by (rule zip_map_same)
      with st show ?thesis by auto
    qed
  qed
  have c: "fst (admin_update_offer d oid (status_only st)) =
          Inr \<lparr>resp_status = 200, resp_data = off\<lparr>offer_status := st\<rparr>\<rparr> \<and>
        find_offer (snd (admin_update_offer d oid (status_only st))) oid =
          Some (off\<lparr>offer_status := st\<rparr>)"
    if "find_offer d oid = Some off" for off st
  proof -
    have ap: "apply_update_data (status_only st) x = x\<lparr>offer_status := st\<rparr>" for x
      by (simp add: apply_update_data_def status_only_def)
    from that show ?thesis
      by (simp add: admin_update_offer_def find_offer_update_offer) (simp add: ap)
  qed
  from a1 a2 b1 b2 c show ?thesis by blast
qed


text \<open>
  The claim C5 says that the status moves only along pending to accepted, pending to
  rejected and accepted to completed. On the sample database the admin update takes
  the rejected offer \<open>o3\<close> back to pending.
\<close>

theorem rejected_offer_reopened:
  "map_option offer_status (find_offer example_db ''o3'') = Some REJECTED \<and>
   map_option offer_status
     (find_offer (snd (admin_update_offer example_db ''o3'' (status_only PENDING))) ''o3'') = Some PENDING \<and>
   \<not> spec_transition REJECTED PENDING"
  by (simp add: admin_update_offer_def validate_update_offer_def status_only_def find_offer_def
      update_offer_def apply_update_data_def offerStatus_of_def example_db_def example_offers_def)

lemma example_offer_ids: "distinct (map offer_id (offers example_db))"
  by (simp add: example_db_def example_offers_def)

theorem offer_status_writers_witness:
  "distinct (map offer_id (offers example_db)) \<and>
   map_option offer_status (find_offer example_db ''o1'') = Some PENDING \<and>
   map_option offer_status
     (find_offer (snd (admin_update_offer example_db ''o1'' (status_only COMPLETED))) ''o1'') = Some COMPLETED \<and>
   map offer_status (offers example_db) = [PENDING, PENDING, REJECTED, ACCEPTED] \<and>
   map offer_status (offers (snd (complete_offer True example_db ''p2'' ''o4''))) =
     [PENDING, PENDING, REJECTED, COMPLETED] \<and>
   map offer_status (offers (snd (set_offer_status True example_db ''r1'' ''o2'' ''REJECTED''))) =
     [PENDING, REJECTED, REJECTED, ACCEPTED] \<and>
   length (offers (snd (complete_offer True example_db ''p2'' ''o4''))) = 4 \<and>
   length (offers (snd (set_offer_status True example_db ''r1'' ''o2'' ''REJECTED''))) = 4"
proof -
  have o1: "find_offer example_db ''o1'' = Some (example_offers ! 0)"
    by (simp add: find_offer_def example_db_def example_offers_def)
  have s1: "offer_status (example_offers ! 0) = PENDING" by (simp add: example_offers_def)
  have len: "length (offers example_db) = 4" by (simp add: example_db_def example_offers_def)
  note T = offer_status_writers [OF example_offer_ids, where oid = "''o1''"]
  from T o1 have a: "find_offer (snd (admin_update_offer example_db ''o1'' (status_only COMPLETED))) ''o1'' =
          Some ((example_offers ! 0)\<lparr>offer_status := COMPLETED\<rparr>)"
    by blast
  have l1: "length (offers (snd (complete_offer True example_db ''p2'' ''o4''))) = 4"
    using offer_status_writers [OF example_offer_ids, of True "''p2''" "''o4''"] len by simp
  have l2: "length (offers (snd (set_offer_status True example_db ''r1'' ''o2'' ''REJECTED''))) = 4"
    using offer_status_writers [OF example_offer_ids, where ok = True and userId = "''r1''"
        and oid = "''o2''" and bodyStatus = "''REJECTED''"] len by simp
  have c: "map offer_status (offers (snd (complete_offer True example_db ''p2'' ''o4''))) =
     [PENDING, PENDING, REJECTED, COMPLETED]"
    by (simp add: complete_offer_def find_offer_def find_demand_def update_offer_def
        create_notification_def example_db_def example_offers_def example_demands_def Let_def)
  have e: "map offer_status (offers (snd (set_offer_status True example_db ''r1'' ''o2'' ''REJECTED''))) =
     [PENDING, REJECTED, REJECTED, ACCEPTED]"
    by (simp add: set_offer_status_def offerStatus_of_def find_offer_def find_demand_def
        update_offer_def update_demand_def create_notification_def example_db_def example_offers_def
        example_demands_def Let_def)
  have i: "map offer_status (offers example_db) = [PENDING, PENDING, REJECTED, ACCEPTED]"
    by (simp add: example_db_def example_offers_def)
  from a o1 s1 l1 l2 c e i example_offer_ids show ?thesis by simp
qed

section \<open>Aggregate rating\<close>

lemma find_user_reviews_update [simp]: "find_user (d\<lparr>reviews := rs\<rparr>) uid = find_user d uid"
  by (simp add: find_user_def)

lemma reviews_update_user [simp]: "reviews (update_user uid f d) = reviews d"
  by (simp add: update_user_def)

lemma reviews_of_update_user [simp]: "reviews_of (update_user uid f d) x = reviews_of d x"
  by (simp add: reviews_of_def)




section \<open>Demand listing\<close>



section \<open>Single demand fetch and the category closure\<close>

text \<open>
  C6 says that the single-demand fetch refuses an approved demand exactly when its
  category is outside the requester's subscribed categories and their descendants. The
  handler tests membership in the subscribed categories themselves. On the sample
  database provider \<open>p1\<close> subscribes to \<open>A\<close>; the approved demand \<open>d1\<close> is in category
  \<open>D\<close>, a grandchild of \<open>A\<close>, which the resolver puts in the allowed list and the
  listing shows to \<open>p1\<close>; the fetch of \<open>d1\<close> by \<open>p1\<close> is refused with 403.
\<close>

theorem descendant_demand_rejected:
  "map_option user_categories (find_user example_db ''p1'') = Some [''A''] \<and>
   map_option demand_categoryId (find_demand example_db ''d1'') = Some ''D'' \<and>
   map_option demand_isApproved (find_demand example_db ''d1'') = Some True \<and>
   allowedCategoryIds 3 example_categories [''A''] = Some [''A'', ''B'', ''D'', ''C''] \<and>
   map_option (map_sum id (map demand_id \<circ> page_demands \<circ> resp_data))
     (list_demands 3 example_db ''p1'' example_query) = Some (Inr [''d5'', ''d4'', ''d1'']) \<and>
   get_demand example_db ''p1'' ''d1'' =
     Inl (AppError (''Bu talebi g'' @ [CHR 0xC3, CHR 0xB6] @ ''rme yetkiniz yok'') 403)"
proof -
  have a: "allowedCategoryIds 3 example_categories [''A''] = Some [''A'', ''B'', ''D'', ''C'']"
    by (simp add: allowedCategoryIds_def numeral_3_eq_3 children_of_def example_categories_def)
  have u: "find_user example_db ''p1'' = Some (example_users ! 0)"
    by (simp add: find_user_def example_db_def example_users_def)
  have c: "user_categories (example_users ! 0) = [''A'']" "user_userType (example_users ! 0) = PROVIDER"
    by (simp_all add: example_users_def)
  have cats: "categories example_db = example_categories" by (simp add: example_db_def)
  have w: "listing_where 3 example_db ''p1'' example_query =
             Some \<lparr>where_categoryId = Some (In [''A'', ''B'', ''D'', ''C'']), where_status = None,
                   where_isApproved = Some True\<rparr>"
    by (simp add: listing_where_def u c cats a example_query_def)
  have l: "map_option (map_sum id (map demand_id \<circ> page_demands \<circ> resp_data))
     (list_demands 3 example_db ''p1'' example_query) = Some (Inr [''d5'', ''d4'', ''d1''])"
    unfolding list_demands_def w
    by (simp add: validate_list_query_def example_query_def demand_matches_def
        example_db_def example_demands_def)
  have g: "get_demand example_db ''p1'' ''d1'' =
     Inl (AppError (''Bu talebi g'' @ [CHR 0xC3, CHR 0xB6] @ ''rme yetkiniz yok'') 403)"
  proof -
    have dd: "find_demand example_db ''d1'' = Some (example_demands ! 0)"
      by (simp add: find_demand_def example_db_def example_demands_def)
    have df: "demand_isApproved (example_demands ! 0)" "demand_categoryId (example_demands ! 0) = ''D''"
      by (simp_all add: example_demands_def)
    show ?thesis by (simp add: get_demand_def dd df u c)
  qed
  have d: "map_option demand_categoryId (find_demand example_db ''d1'') = Some ''D''"
    "map_option demand_isApproved (find_demand example_db ''d1'') = Some True"
    by (simp_all add: find_demand_def example_db_def example_demands_def)
  from a u c l g d show ?thesis by simp
qed

section \<open>Visibility resolver\<close>











lemma set_dedupe [simp]: "set (dedupe xs) = set xs"
  by (induction xs rule: dedupe.induct) auto

lemma distinct_dedupe [simp]: "distinct (dedupe xs)"
  by (induction xs rule: dedupe.induct) auto








end
